theory Spec2Isabelle
  imports Main "HOL-Library.Word"
begin

section \<open>The Reddit client's thread model (redditmodel.cpp, redditwrapper.cpp)\<close>

text \<open>
  The model follows \<^verbatim>\<open>RedditModel\<close>, a \<^verbatim>\<open>QAbstractTableModel\<close> over a
  \<^verbatim>\<open>QList<QJsonObject> threads\<close>, and the part of \<^verbatim>\<open>RedditWrapper\<close> it calls.
  Signals are recorded in a log; every entry carries the list of threads as a slot
  connected to the signal finds it when the signal is emitted. A failed \<^verbatim>\<open>Q_ASSERT\<close>
  ends the program: it is the \<open>Inl\<close> branch of a sum, and no state is left behind it.
\<close>

subsection \<open>JSON values\<close>

type_synonym QString = string

text \<open>
  \<^verbatim>\<open>QJsonValue\<close> with the seven types of \<^verbatim>\<open>QJsonValue::Type\<close>. A double is kept as its
  64 bits: the program never computes with one. An object is its list of members; a
  \<^verbatim>\<open>QJsonObject\<close> holds one member per key, and a lookup returns the member found first.
\<close>

datatype QJsonValue =
    Null
  | Bool bool
  | Double "64 word"
  | String QString
  | Array "QJsonValue list"
  | Object "(QString \<times> QJsonValue) list"
  | Undefined

type_synonym QJsonObject = "(QString \<times> QJsonValue) list"
type_synonym QJsonArray = "QJsonValue list"

text \<open>\<^verbatim>\<open>QJsonObject::value(key)\<close>: the member, or \<^verbatim>\<open>QJsonValue::Undefined\<close> when there is none.\<close>

definition QJsonObject_value :: "QJsonObject \<Rightarrow> QString \<Rightarrow> QJsonValue" where
  "QJsonObject_value obj key = (case map_of obj key of None \<Rightarrow> Undefined | Some v \<Rightarrow> v)"

fun isObject :: "QJsonValue \<Rightarrow> bool" where
  "isObject (Object members) = True"
| "isObject other = False"

text \<open>\<^verbatim>\<open>QJsonValue::toObject()\<close>: the empty object for a value that is not an object.\<close>

fun toObject :: "QJsonValue \<Rightarrow> QJsonObject" where
  "toObject (Object members) = members"
| "toObject other = []"

fun isArray :: "QJsonValue \<Rightarrow> bool" where
  "isArray (Array elements) = True"
| "isArray other = False"

text \<open>\<^verbatim>\<open>QJsonValue::toArray()\<close>: the empty array for a value that is not an array.\<close>

fun toArray :: "QJsonValue \<Rightarrow> QJsonArray" where
  "toArray (Array elements) = elements"
| "toArray other = []"

text \<open>\<^verbatim>\<open>QJsonValue::toString()\<close>: the null string for a value that is not a string.\<close>

fun toString :: "QJsonValue \<Rightarrow> QString" where
  "toString (String text) = text"
| "toString other = []"

text \<open>
  \<^verbatim>\<open>QJsonDocument\<close>, as \<^verbatim>\<open>QJsonDocument::fromJson\<close> returns it: null when the bytes do not
  parse, or an array, or an object.
\<close>

datatype QJsonDocument =
    DocumentNull
  | DocumentArray QJsonArray
  | DocumentObject QJsonObject

fun QJsonDocument_isObject :: "QJsonDocument \<Rightarrow> bool" where
  "QJsonDocument_isObject (DocumentObject members) = True"
| "QJsonDocument_isObject other = False"

text \<open>\<^verbatim>\<open>QJsonDocument::object()\<close>: the empty object for a document that is not an object.\<close>

fun QJsonDocument_object :: "QJsonDocument \<Rightarrow> QJsonObject" where
  "QJsonDocument_object (DocumentObject members) = members"
| "QJsonDocument_object other = []"

subsection \<open>The network reply\<close>

text \<open>
  \<^verbatim>\<open>QNetworkReply::NetworkError\<close> is an enumeration whose value 0 is \<^verbatim>\<open>NoError\<close>. The reply
  is read once it has finished: \<open>error\<close> and \<open>errorString\<close> are its error state, and
  \<open>document\<close> is \<^verbatim>\<open>QJsonDocument::fromJson(reply->readAll())\<close>; the parser is the
  framework's, and the model starts from its result.
\<close>

type_synonym NetworkError = nat

definition NoError :: NetworkError where
  "NoError = 0"

record QNetworkReply =
  error :: NetworkError
  errorString :: QString
  document :: QJsonDocument

subsection \<open>Model indices, roles and variants\<close>

text \<open>
  \<^verbatim>\<open>QModelIndex\<close> holds a row, a column and a pointer to its model; \<open>m\<close> says that the
  pointer is not null. \<^verbatim>\<open>QModelIndex::isValid()\<close> is
  \<^verbatim>\<open>(r >= 0) && (c >= 0) && (m != nullptr)\<close>, and \<^verbatim>\<open>QModelIndex()\<close> is \<open>(-1, -1, nullptr)\<close>.
\<close>

record QModelIndex =
  row :: int
  column :: int
  m :: bool

definition QModelIndex_invalid :: QModelIndex where
  "QModelIndex_invalid = \<lparr>row = - 1, column = - 1, m = False\<rparr>"

definition isValid :: "QModelIndex \<Rightarrow> bool" where
  "isValid index \<longleftrightarrow> row index \<ge> 0 \<and> column index \<ge> 0 \<and> m index"

text \<open>\<^verbatim>\<open>Qt::DisplayRole\<close> is role 0 of \<^verbatim>\<open>Qt::ItemDataRole\<close>.\<close>

definition DisplayRole :: int where
  "DisplayRole = 0"

text \<open>The two variants \<^verbatim>\<open>data()\<close> returns: \<^verbatim>\<open>QVariant()\<close> and a \<^verbatim>\<open>QVariant\<close> of a string.\<close>

datatype QVariant =
    QVariant_invalid
  | QVariant_QString QString

subsection \<open>Signals, assertions and the state\<close>

text \<open>
  The signals of the model: its own \<^verbatim>\<open>error(QString)\<close>, and the two that
  \<^verbatim>\<open>beginInsertRows\<close> and \<^verbatim>\<open>endInsertRows\<close> emit, with \<open>first\<close> and \<open>last\<close> (the parent
  is always the root index here).
\<close>

datatype signal =
    error_signal QString
  | rowsAboutToBeInserted int int
  | rowsInserted int int

text \<open>
  Modelled from the spec: \<^verbatim>\<open>Q_ASSERT\<close> is the framework's macro and not in the
  repository; it is taken as the fatal check the specification describes, that is, as
  in a build that compiles assertions in. These are the places where the program can
  stop on one: the five assertions of the handler of \<^verbatim>\<open>finished\<close>, the assertion of
  \<^verbatim>\<open>data()\<close>, and those of \<^verbatim>\<open>QList::at\<close> and of the stack of pending changes, which are
  the framework's.
\<close>

datatype assertion =
    document_isObject
  | kind_is_Listing
  | dataValue_isObject
  | childrenValue_isArray
  | childValue_isObject
  | childrenObject_data_isObject
  | QList_at_index_out_of_range
  | QStack_pop_empty

datatype fatal = Q_ASSERT_failed assertion

datatype Status = NotAuthenticated | TemporaryCredentialsReceived | Granted | RefreshingToken

type_synonym QUrl = string

definition hotUrl :: QUrl where
  "hotUrl = ''https://oauth.reddit.com/hot''"

text \<open>
  \<^verbatim>\<open>RedditWrapper\<close> as the model uses it: the client identifier handed to the
  constructor, the status of the \<^verbatim>\<open>QOAuth2AuthorizationCodeFlow\<close>, and the calls made to
  \<^verbatim>\<open>oauth2.grant()\<close> and \<^verbatim>\<open>oauth2.get(url)\<close>, which are the framework's.
\<close>

record RedditWrapper =
  clientIdentifier :: QString
  status :: Status
  grant_calls :: nat
  get_calls :: "QUrl list"

text \<open>
  \<^verbatim>\<open>RedditModel\<close>: the wrapper, the threads, the number of connections from the
  wrapper's \<^verbatim>\<open>authenticated\<close> signal to \<^verbatim>\<open>update\<close>, the stack of pending changes that
  \<^verbatim>\<open>QAbstractItemModel\<close> keeps between \<^verbatim>\<open>beginInsertRows\<close> and \<^verbatim>\<open>endInsertRows\<close>, and the
  log of emitted signals.
\<close>

record RedditModel =
  redditWrapper :: RedditWrapper
  threads :: "QJsonObject list"
  authenticated_connections :: nat
  changes :: "(int \<times> int) list"
  emitted :: "(signal \<times> QJsonObject list) list"

definition emit :: "RedditModel \<Rightarrow> signal \<Rightarrow> RedditModel" where
  "emit s sig = s\<lparr>emitted := emitted s @ [(sig, threads s)]\<rparr>"

subsection \<open>RedditWrapper\<close>

definition RedditWrapper_default :: RedditWrapper where
  "RedditWrapper_default =
     \<lparr>clientIdentifier = [], status = NotAuthenticated, grant_calls = 0, get_calls = []\<rparr>"

definition RedditWrapper_clientIdentifier :: "QString \<Rightarrow> RedditWrapper" where
  "RedditWrapper_clientIdentifier clientId = RedditWrapper_default\<lparr>clientIdentifier := clientId\<rparr>"

text \<open>\<^verbatim>\<open>requestHotThreads\<close>: \<^verbatim>\<open>return oauth2.get(hotUrl);\<close>, whatever the status is.\<close>

definition requestHotThreads :: "RedditWrapper \<Rightarrow> RedditWrapper" where
  "requestHotThreads w = w\<lparr>get_calls := get_calls w @ [hotUrl]\<rparr>"

definition RedditWrapper_grant :: "RedditWrapper \<Rightarrow> RedditWrapper" where
  "RedditWrapper_grant w = w\<lparr>grant_calls := Suc (grant_calls w)\<rparr>"

subsection \<open>RedditModel: the queries\<close>

text \<open>
  Sizes, rows and roles are \<^verbatim>\<open>int\<close> in the program; they are \<open>int\<close> here, without
  wrap-around: the size of a \<^verbatim>\<open>QList\<close> stays within that type.
\<close>

definition rowCount :: "RedditModel \<Rightarrow> int" where
  "rowCount s = int (length (threads s))"

definition columnCount :: "RedditModel \<Rightarrow> int" where
  "columnCount s = (if int (length (threads s)) \<noteq> 0 then 1 else 0)"

text \<open>
  \<^verbatim>\<open>QList::at(i)\<close> asserts \<^verbatim>\<open>i >= 0 && i < size()\<close> ("index out of range") before it
  reads the element.
\<close>

definition QList_at :: "'a list \<Rightarrow> int \<Rightarrow> fatal + 'a" where
  "QList_at xs i =
     (if 0 \<le> i \<and> i < int (length xs) then Inr (xs ! nat i)
      else Inl (Q_ASSERT_failed QList_at_index_out_of_range))"

definition data :: "RedditModel \<Rightarrow> QModelIndex \<Rightarrow> int \<Rightarrow> fatal + QVariant" where
  "data s index role =
     (if \<not> isValid index then Inr QVariant_invalid
      else if role = DisplayRole then
        (case QList_at (threads s) (row index) of
           Inl e \<Rightarrow> Inl e
         | Inr childrenObject \<Rightarrow>
             if \<not> isObject (QJsonObject_value childrenObject ''data'')
             then Inl (Q_ASSERT_failed childrenObject_data_isObject)
             else
               let dataObject = toObject (QJsonObject_value childrenObject ''data'')
               in Inr (QVariant_QString (toString (QJsonObject_value dataObject ''title''))))
      else Inr QVariant_invalid)"

text \<open>
  Modelled from the spec: \<^verbatim>\<open>QAbstractTableModel::index\<close> and \<^verbatim>\<open>QAbstractItemModel::hasIndex\<close>
  are the framework's and not in the repository. The view reaches a cell through them:
  a row in \<open>[0, rowCount)\<close> and a column in \<open>[0, columnCount)\<close> give an index of
  this model, anything else gives \<^verbatim>\<open>QModelIndex()\<close>.
\<close>

definition hasIndex :: "RedditModel \<Rightarrow> int \<Rightarrow> int \<Rightarrow> bool" where
  "hasIndex s r c \<longleftrightarrow> \<not> (r < 0 \<or> c < 0) \<and> r < rowCount s \<and> c < columnCount s"

definition index :: "RedditModel \<Rightarrow> int \<Rightarrow> int \<Rightarrow> QModelIndex" where
  "index s r c = (if hasIndex s r c then \<lparr>row = r, column = c, m = True\<rparr> else QModelIndex_invalid)"

subsection \<open>RedditModel: construction, grant and update\<close>

text \<open>\<^verbatim>\<open>RedditModel(QObject *parent)\<close>: nothing is granted and nothing is connected.\<close>

definition RedditModel_default :: RedditModel where
  "RedditModel_default =
     \<lparr>redditWrapper = RedditWrapper_default, threads = [], authenticated_connections = 0,
      changes = [], emitted = []\<rparr>"

text \<open>\<^verbatim>\<open>update\<close>: requests the hot threads; the reply's \<^verbatim>\<open>finished\<close> signal runs \<open>finished\<close> below.\<close>

definition update :: "RedditModel \<Rightarrow> RedditModel" where
  "update s = s\<lparr>redditWrapper := requestHotThreads (redditWrapper s)\<rparr>"

definition grant :: "RedditModel \<Rightarrow> RedditModel" where
  "grant s = s\<lparr>redditWrapper := RedditWrapper_grant (redditWrapper s),
               authenticated_connections := Suc (authenticated_connections s)\<rparr>"

text \<open>\<^verbatim>\<open>RedditModel(const QString &clientId, QObject *parent)\<close>: the wrapper with the identifier, then \<^verbatim>\<open>grant()\<close>.\<close>

definition RedditModel_clientId :: "QString \<Rightarrow> RedditModel" where
  "RedditModel_clientId clientId =
     grant (RedditModel_default\<lparr>redditWrapper := RedditWrapper_clientIdentifier clientId\<rparr>)"

text \<open>
  The wrapper's handler of \<^verbatim>\<open>statusChanged\<close> emits \<^verbatim>\<open>authenticated\<close> when the status is
  \<^verbatim>\<open>Granted\<close>, and every connection made by \<^verbatim>\<open>grant\<close> then runs \<^verbatim>\<open>update\<close> once.
\<close>

definition statusChanged :: "RedditModel \<Rightarrow> Status \<Rightarrow> RedditModel" where
  "statusChanged s st =
     (let s' = s\<lparr>redditWrapper := (redditWrapper s)\<lparr>status := st\<rparr>\<rparr>
      in if st = Granted then (update ^^ authenticated_connections s') s' else s')"

text \<open>
  Modelled from the spec: \<^verbatim>\<open>beginInsertRows\<close> and \<^verbatim>\<open>endInsertRows\<close> are the framework's and
  not in the repository. The first records the range and announces it with
  \<^verbatim>\<open>rowsAboutToBeInserted\<close>; the second takes the range recorded last and emits the
  rows-inserted notification for it.
\<close>

definition beginInsertRows :: "RedditModel \<Rightarrow> int \<Rightarrow> int \<Rightarrow> RedditModel" where
  "beginInsertRows s first_row last_row =
     emit (s\<lparr>changes := (first_row, last_row) # changes s\<rparr>)
       (rowsAboutToBeInserted first_row last_row)"

definition endInsertRows :: "RedditModel \<Rightarrow> fatal + RedditModel" where
  "endInsertRows s =
     (case changes s of
        [] \<Rightarrow> Inl (Q_ASSERT_failed QStack_pop_empty)
      | (first_row, last_row) # rest \<Rightarrow>
          Inr (emit (s\<lparr>changes := rest\<rparr>) (rowsInserted first_row last_row)))"

text \<open>The loop over \<^verbatim>\<open>childrenArray\<close>: assert that the child is an object, append it.\<close>

fun append_children :: "RedditModel \<Rightarrow> QJsonArray \<Rightarrow> fatal + RedditModel" where
  "append_children s [] = Inr s"
| "append_children s (childValue # rest) =
     (if \<not> isObject childValue then Inl (Q_ASSERT_failed childValue_isObject)
      else append_children (s\<lparr>threads := threads s @ [toObject childValue]\<rparr>) rest)"

text \<open>
  The handler that \<^verbatim>\<open>update\<close> connects to the reply's \<^verbatim>\<open>finished\<close> signal.
  (\<^verbatim>\<open>reply->deleteLater()\<close> frees the reply once the handler is done and has no part here.)
\<close>

definition finished :: "RedditModel \<Rightarrow> QNetworkReply \<Rightarrow> fatal + RedditModel" where
  "finished s reply =
     (if error reply \<noteq> NoError then Inr (emit s (error_signal (errorString reply)))
      else
        if \<not> QJsonDocument_isObject (document reply)
        then Inl (Q_ASSERT_failed document_isObject)
        else
          let rootObject = QJsonDocument_object (document reply) in
          if toString (QJsonObject_value rootObject ''kind'') \<noteq> ''Listing''
          then Inl (Q_ASSERT_failed kind_is_Listing)
          else
            let dataValue = QJsonObject_value rootObject ''data'' in
            if \<not> isObject dataValue
            then Inl (Q_ASSERT_failed dataValue_isObject)
            else
              let dataObject = toObject dataValue;
                  childrenValue = QJsonObject_value dataObject ''children'' in
              if \<not> isArray childrenValue
              then Inl (Q_ASSERT_failed childrenValue_isArray)
              else
                let childrenArray = toArray childrenValue in
                if childrenArray = [] then Inr s
                else
                  (case append_children
                          (beginInsertRows s (int (length (threads s)))
                             (int (length childrenArray) + int (length (threads s)) - 1))
                          childrenArray of
                     Inl e \<Rightarrow> Inl e
                   | Inr s' \<Rightarrow> endInsertRows s'))"

subsection \<open>The operations as one step function\<close>

text \<open>
  Everything that can change a \<^verbatim>\<open>RedditModel\<close>: a call of \<^verbatim>\<open>grant\<close>, a call of
  \<^verbatim>\<open>update\<close>, a status change of the authorization flow, and the completion of a reply.
  \<^verbatim>\<open>rowCount\<close>, \<^verbatim>\<open>columnCount\<close> and \<^verbatim>\<open>data\<close> are \<^verbatim>\<open>const\<close> and return no state.
\<close>

datatype operation =
    op_grant
  | op_update
  | op_statusChanged Status
  | op_finished QNetworkReply

fun step :: "RedditModel \<Rightarrow> operation \<Rightarrow> fatal + RedditModel" where
  "step s op_grant = Inr (grant s)"
| "step s op_update = Inr (update s)"
| "step s (op_statusChanged st) = Inr (statusChanged s st)"
| "step s (op_finished reply) = finished s reply"

text \<open>Replies completing one after the other; a failed assertion ends the run.\<close>

fun completions :: "RedditModel \<Rightarrow> QNetworkReply list \<Rightarrow> fatal + RedditModel" where
  "completions s [] = Inr s"
| "completions s (reply # rest) =
     (case finished s reply of Inl e \<Rightarrow> Inl e | Inr s' \<Rightarrow> completions s' rest)"

subsection \<open>Notions used in the statements\<close>

text \<open>
  The values that the handler of \<^verbatim>\<open>finished\<close> reads off the document, under the names
  of its local variables, and the five conditions it asserts on them, together.
\<close>

definition kind :: "QJsonDocument \<Rightarrow> QString" where
  "kind doc = toString (QJsonObject_value (QJsonDocument_object doc) ''kind'')"

definition dataValue :: "QJsonDocument \<Rightarrow> QJsonValue" where
  "dataValue doc = QJsonObject_value (QJsonDocument_object doc) ''data''"

definition childrenValue :: "QJsonDocument \<Rightarrow> QJsonValue" where
  "childrenValue doc = QJsonObject_value (toObject (dataValue doc)) ''children''"

definition childrenArray :: "QJsonDocument \<Rightarrow> QJsonArray" where
  "childrenArray doc = toArray (childrenValue doc)"

definition well_shaped :: "QJsonDocument \<Rightarrow> bool" where
  "well_shaped doc \<longleftrightarrow>
     QJsonDocument_isObject doc \<and> kind doc = ''Listing'' \<and> isObject (dataValue doc) \<and>
     isArray (childrenValue doc) \<and> list_all isObject (childrenArray doc)"

text \<open>What \<^verbatim>\<open>data()\<close> reads in a stored record: the value of \<^verbatim>\<open>data\<close>, and the title in it.\<close>

definition record_data :: "QJsonObject \<Rightarrow> QJsonValue" where
  "record_data childrenObject = QJsonObject_value childrenObject ''data''"

definition record_title :: "QJsonObject \<Rightarrow> QString" where
  "record_title childrenObject =
     toString (QJsonObject_value (toObject (record_data childrenObject)) ''title'')"

subsection \<open>Example inputs\<close>

text \<open>A listing entry with a title, the listing envelope around some entries, and a reply without error carrying it.\<close>

definition thread_titled :: "QString \<Rightarrow> QJsonValue" where
  "thread_titled title =
     Object [(''kind'', String ''t3''), (''data'', Object [(''title'', String title)])]"

definition listing :: "QJsonArray \<Rightarrow> QJsonDocument" where
  "listing children =
     DocumentObject [(''kind'', String ''Listing''), (''data'', Object [(''children'', Array children)])]"

definition reply_with :: "QJsonDocument \<Rightarrow> QNetworkReply" where
  "reply_with doc = \<lparr>error = NoError, errorString = [], document = doc\<rparr>"

text \<open>A reply that failed in transport: \<^verbatim>\<open>QNetworkReply::HostNotFoundError\<close> is 3.\<close>

definition reply_failed :: QNetworkReply where
  "reply_failed = \<lparr>error = 3, errorString = ''Host not found'', document = DocumentNull\<rparr>"

text \<open>
  The scenario of the specification: a first listing with the titles A, B and C, a
  second with D and E, and the states of a fresh model after each.
\<close>

definition first_batch :: QJsonArray where
  "first_batch = [thread_titled ''A'', thread_titled ''B'', thread_titled ''C'']"

definition second_batch :: QJsonArray where
  "second_batch = [thread_titled ''D'', thread_titled ''E'']"

definition after_first :: RedditModel where
  "after_first = RedditModel_default
     \<lparr>threads := map toObject first_batch,
      emitted := [(rowsAboutToBeInserted 0 2, []),
                  (rowsInserted 0 2, map toObject first_batch)]\<rparr>"

definition after_second :: RedditModel where
  "after_second = after_first
     \<lparr>threads := map toObject (first_batch @ second_batch),
      emitted := emitted after_first @
                 [(rowsAboutToBeInserted 3 4, map toObject first_batch),
                  (rowsInserted 3 4, map toObject (first_batch @ second_batch))]\<rparr>"

text \<open>Listing entries that are objects and have no \<^verbatim>\<open>data\<close> object.\<close>

definition thread_without_data :: QJsonValue where
  "thread_without_data = Object [(''kind'', String ''t3'')]"

definition thread_with_data_string :: QJsonValue where
  "thread_with_data_string = Object [(''kind'', String ''t3''), (''data'', String ''A'')]"

text \<open>A fresh model after a listing whose only entry has no \<^verbatim>\<open>data\<close>.\<close>

definition after_without_data :: RedditModel where
  "after_without_data = RedditModel_default
     \<lparr>threads := [toObject thread_without_data],
      emitted := [(rowsAboutToBeInserted 0 0, []),
                  (rowsInserted 0 0, [toObject thread_without_data])]\<rparr>"

text \<open>A fresh model after a listing whose second entry has a string for \<^verbatim>\<open>data\<close>.\<close>

definition after_data_string :: RedditModel where
  "after_data_string = RedditModel_default
     \<lparr>threads := map toObject [thread_titled ''A'', thread_with_data_string],
      emitted := [(rowsAboutToBeInserted 0 1, []),
                  (rowsInserted 0 1, map toObject [thread_titled ''A'', thread_with_data_string])]\<rparr>"

text \<open>Documents that break the listing envelope: a wrong kind, no \<^verbatim>\<open>data\<close>, no \<^verbatim>\<open>children\<close>.\<close>

definition listing_wrong_kind :: QJsonDocument where
  "listing_wrong_kind =
     DocumentObject [(''kind'', String ''t3''), (''data'', Object [(''children'', Array [])])]"

definition listing_without_data :: QJsonDocument where
  "listing_without_data = DocumentObject [(''kind'', String ''Listing'')]"

definition listing_without_children :: QJsonDocument where
  "listing_without_children = DocumentObject [(''kind'', String ''Listing''), (''data'', Object [])]"

section \<open>Properties\<close>

subsection \<open>Shared lemmas\<close>

lemmas shape_defs = well_shaped_def kind_def dataValue_def childrenValue_def childrenArray_def

lemmas example_defs = thread_titled_def listing_def reply_with_def reply_failed_def
  first_batch_def second_batch_def after_first_def after_second_def
  thread_without_data_def thread_with_data_string_def after_without_data_def
  after_data_string_def listing_wrong_kind_def listing_without_data_def
  listing_without_children_def
  RedditModel_default_def RedditWrapper_default_def

lemma append_children_eq:
  "append_children s cs =
     (if list_all isObject cs then Inr (s\<lparr>threads := threads s @ map toObject cs\<rparr>)
      else Inl (Q_ASSERT_failed childValue_isObject))"
  by (induction cs arbitrary: s) auto

lemma finished_error:
  "error reply \<noteq> NoError \<Longrightarrow>
   finished s reply = Inr (s\<lparr>emitted := emitted s @ [(error_signal (errorString reply), threads s)]\<rparr>)"
  by (simp add: finished_def emit_def)

lemma finished_well_shaped:
  assumes "error reply = NoError" and "well_shaped (document reply)"
  shows "finished s reply =
     (if childrenArray (document reply) = [] then Inr s
      else Inr (s\<lparr>threads := threads s @ map toObject (childrenArray (document reply)),
                 emitted := emitted s @
                   [(rowsAboutToBeInserted (rowCount s)
                       (rowCount s + int (length (childrenArray (document reply))) - 1), threads s),
                    (rowsInserted (rowCount s)
                       (rowCount s + int (length (childrenArray (document reply))) - 1),
                     threads s @ map toObject (childrenArray (document reply)))]\<rparr>))"
  using assms
  by (simp add: finished_def shape_defs Let_def append_children_eq
      beginInsertRows_def endInsertRows_def emit_def rowCount_def add.commute)

lemma finished_not_well_shaped:
  assumes "error reply = NoError" and "\<not> well_shaped (document reply)"
  shows "finished s reply = Inl (Q_ASSERT_failed
     (if \<not> QJsonDocument_isObject (document reply) then document_isObject
      else if kind (document reply) \<noteq> ''Listing'' then kind_is_Listing
      else if \<not> isObject (dataValue (document reply)) then dataValue_isObject
      else if \<not> isArray (childrenValue (document reply)) then childrenValue_isArray
      else childValue_isObject))"
  using assms
  by (auto simp add: finished_def shape_defs Let_def append_children_eq)

lemma finished_Inr_well_shaped:
  assumes "error reply = NoError" and "finished s reply = Inr s'"
  shows "well_shaped (document reply)"
  using assms finished_not_well_shaped[of reply s] by auto

lemma finished_threads:
  assumes "finished s reply = Inr s'"
  shows "threads s' = threads s @
    (if error reply = NoError then map toObject (childrenArray (document reply)) else [])"
proof (cases "error reply = NoError")
  case True
  then show ?thesis
    using assms finished_well_shaped[OF True finished_Inr_well_shaped[OF True assms], of s]
    by (auto split: if_splits)
next
  case False
  then show ?thesis using assms by (auto simp: finished_error)
qed

lemma data_display_in_range:
  assumes "isValid idx" and "0 \<le> row idx" and "row idx < rowCount s"
  shows "data s idx DisplayRole =
     (if isObject (record_data (threads s ! nat (row idx)))
      then Inr (QVariant_QString (record_title (threads s ! nat (row idx))))
      else Inl (Q_ASSERT_failed childrenObject_data_isObject))"
  using assms
  by (simp add: data_def QList_at_def rowCount_def record_data_def record_title_def)

lemma index_in_range:
  assumes "0 \<le> r" and "r < rowCount s"
  shows "index s r 0 = \<lparr>row = r, column = 0, m = True\<rparr>"
  using assms by (auto simp add: index_def hasIndex_def columnCount_def rowCount_def)

lemma index_out_of_range:
  assumes "\<not> (0 \<le> r \<and> r < rowCount s)"
  shows "index s r c = QModelIndex_invalid"
  using assms by (auto simp add: index_def hasIndex_def)

lemma data_invalid: "\<not> isValid idx \<Longrightarrow> data s idx role = Inr QVariant_invalid"
  by (simp add: data_def)

lemma update_funpow_threads:
  "threads ((update ^^ n) s) = threads s \<and> emitted ((update ^^ n) s) = emitted s"
  by (induction n) (simp_all add: update_def)

lemma statusChanged_threads: "threads (statusChanged s st) = threads s"
  by (simp add: statusChanged_def Let_def update_funpow_threads)

lemma completions_rowCount:
  assumes "list_all (\<lambda>r. error r = NoError) rs" and "completions s rs = Inr s'"
  shows "rowCount s' = rowCount s + (\<Sum>r\<leftarrow>rs. int (length (childrenArray (document r))))"
  using assms
proof (induction rs arbitrary: s)
  case Nil
  then show ?case by simp
next
  case (Cons r rs)
  from Cons.prems obtain s1 where s1: "finished s r = Inr s1" and rest: "completions s1 rs = Inr s'"
    by (auto split: sum.splits)
  from Cons.prems have ok: "error r = NoError" and oks: "list_all (\<lambda>r. error r = NoError) rs"
    by simp_all
  have "rowCount s1 = rowCount s + int (length (childrenArray (document r)))"
    using finished_threads[OF s1] ok by (simp add: rowCount_def)
  with Cons.IH[OF oks rest] show ?case by simp
qed

lemma completions_total:
  assumes "list_all (\<lambda>r. error r = NoError \<and> well_shaped (document r)) rs"
  shows "\<exists>s'. completions s rs = Inr s'"
  using assms
proof (induction rs arbitrary: s)
  case Nil
  then show ?case by simp
next
  case (Cons r rs)
  then have "error r = NoError" and "well_shaped (document r)" by simp_all
  from finished_well_shaped[OF this, of s] obtain s1 where "finished s r = Inr s1"
    by (auto split: if_splits)
  with Cons show ?case by simp
qed

lemma data_appended:
  assumes th: "threads s' = threads s @ map toObject cs" and j: "j < length cs"
  shows "data s' (index s' (rowCount s + int j) 0) DisplayRole =
     (if isObject (record_data (toObject (cs ! j)))
      then Inr (QVariant_QString (record_title (toObject (cs ! j))))
      else Inl (Q_ASSERT_failed childrenObject_data_isObject))"
proof -
  have lo: "0 \<le> rowCount s + int j" by (simp add: rowCount_def)
  have hi: "rowCount s + int j < rowCount s'" using j by (simp add: rowCount_def th)
  have at: "threads s' ! nat (rowCount s + int j) = toObject (cs ! j)"
    using j by (simp add: th rowCount_def nat_add_distrib nth_append)
  show ?thesis
    using data_display_in_range[of "\<lparr>row = rowCount s + int j, column = 0, m = True\<rparr>" s'] lo hi
    by (simp add: isValid_def at index_in_range[OF lo hi])
qed

lemma statusChanged_unconnected:
  assumes "authenticated_connections s = 0"
  shows "authenticated_connections (statusChanged s st) = 0 \<and>
         get_calls (redditWrapper (statusChanged s st)) = get_calls (redditWrapper s)"
  using assms by (simp add: statusChanged_def Let_def)

lemma foldl_statusChanged_unconnected:
  assumes "authenticated_connections s = 0"
  shows "authenticated_connections (foldl statusChanged s sts) = 0 \<and>
         get_calls (redditWrapper (foldl statusChanged s sts)) = get_calls (redditWrapper s)"
  using assms
proof (induction sts arbitrary: s)
  case Nil
  then show ?case by simp
next
  case (Cons st sts)
  from statusChanged_unconnected[OF Cons.prems, of st] Cons.IH[of "statusChanged s st"]
  show ?case by simp
qed

text \<open>The two completions of the scenario, evaluated.\<close>

lemma reply_with_simps:
  "error (reply_with doc) = NoError" "document (reply_with doc) = doc"
  by (simp_all add: reply_with_def)

lemma listing_childrenArray: "childrenArray (listing cs) = cs"
  by (simp add: shape_defs listing_def QJsonObject_value_def)

lemma listing_well_shaped: "well_shaped (listing cs) \<longleftrightarrow> list_all isObject cs"
  by (simp add: shape_defs listing_def QJsonObject_value_def)

lemma finished_first_batch:
  "finished RedditModel_default (reply_with (listing first_batch)) = Inr after_first"
proof -
  have "well_shaped (document (reply_with (listing first_batch)))"
    by (simp add: reply_with_simps listing_well_shaped first_batch_def thread_titled_def)
  from finished_well_shaped[OF reply_with_simps(1) this, of RedditModel_default]
  show ?thesis
    by (simp add: reply_with_simps listing_childrenArray)
       (simp add: example_defs rowCount_def)
qed

lemma finished_second_batch:
  "finished after_first (reply_with (listing second_batch)) = Inr after_second"
proof -
  have "well_shaped (document (reply_with (listing second_batch)))"
    by (simp add: reply_with_simps listing_well_shaped second_batch_def thread_titled_def)
  from finished_well_shaped[OF reply_with_simps(1) this, of after_first]
  show ?thesis
    by (simp add: reply_with_simps listing_childrenArray)
       (simp add: example_defs rowCount_def)
qed

subsection \<open>C1: the range of the rows-inserted notification\<close>

text \<open>
  Claim C1 says that after a successful completion with \<open>k\<close> children on a list of
  length \<open>N\<close>, every cell from \<open>N\<close> to \<open>N + k - 1\<close> returns the title of its child.
  A child that is an object without a \<^verbatim>\<open>data\<close> object passes every assertion of the
  handler and is stored; the display query on its row then stops on the assertion of
  \<^verbatim>\<open>data()\<close>. Here the listing has one such child, the completion succeeds on a fresh
  model, and the query on row 0 does not return.
\<close>

theorem C1_counterexample:
  "error (reply_with (listing [thread_without_data])) = NoError \<and>
   childrenArray (document (reply_with (listing [thread_without_data]))) = [thread_without_data] \<and>
   finished RedditModel_default (reply_with (listing [thread_without_data])) =
     Inr after_without_data \<and>
   data after_without_data (index after_without_data 0 0) DisplayRole =
     Inl (Q_ASSERT_failed childrenObject_data_isObject)"
  by (simp add: example_defs shape_defs finished_def Let_def QJsonObject_value_def
      beginInsertRows_def endInsertRows_def emit_def data_def isValid_def QList_at_def NoError_def
      index_def hasIndex_def rowCount_def columnCount_def)

text \<open>
  Claim C1, amended: a completion without transport error that returns, with a
  non-empty array of \<open>k\<close> children on a list of length \<open>N\<close>, has appended the \<open>k\<close>
  children in their order; it has emitted \<^verbatim>\<open>rowsAboutToBeInserted\<close> for \<open>[N, N + k - 1]\<close>
  before the first append and exactly one \<^verbatim>\<open>rowsInserted\<close> for \<open>[N, N + k - 1]\<close> after
  the last, when the list already holds all \<open>k\<close>; and afterwards the display query on row
  \<open>N + j\<close> returns the \<^verbatim>\<open>data.title\<close> string of child \<open>j\<close>, for every child whose
  \<^verbatim>\<open>data\<close> is an object.
\<close>

theorem C1_rows_inserted_range:
  assumes "error reply = NoError" and "finished s reply = Inr s'"
    and "childrenArray (document reply) \<noteq> []"
  shows "list_all isObject (childrenArray (document reply)) \<and>
    threads s' = threads s @ map toObject (childrenArray (document reply)) \<and>
    emitted s' = emitted s @
      [(rowsAboutToBeInserted (rowCount s)
          (rowCount s + int (length (childrenArray (document reply))) - 1), threads s),
       (rowsInserted (rowCount s)
          (rowCount s + int (length (childrenArray (document reply))) - 1),
        threads s @ map toObject (childrenArray (document reply)))] \<and>
    (\<forall>j < length (childrenArray (document reply)).
       isObject (record_data (toObject (childrenArray (document reply) ! j))) \<longrightarrow>
       data s' (index s' (rowCount s + int j) 0) DisplayRole =
         Inr (QVariant_QString (record_title (toObject (childrenArray (document reply) ! j)))))"
proof -
  let ?cs = "childrenArray (document reply)"
  have ws: "well_shaped (document reply)"
    using finished_Inr_well_shaped[OF assms(1,2)] .
  have s': "s' = s\<lparr>threads := threads s @ map toObject ?cs,
                 emitted := emitted s @
                   [(rowsAboutToBeInserted (rowCount s) (rowCount s + int (length ?cs) - 1), threads s),
                    (rowsInserted (rowCount s) (rowCount s + int (length ?cs) - 1),
                     threads s @ map toObject ?cs)]\<rparr>"
    using finished_well_shaped[OF assms(1) ws, of s] assms(2,3) by simp
  have th: "threads s' = threads s @ map toObject ?cs"
    by (subst s') simp
  have em: "emitted s' = emitted s @
      [(rowsAboutToBeInserted (rowCount s) (rowCount s + int (length ?cs) - 1), threads s),
       (rowsInserted (rowCount s) (rowCount s + int (length ?cs) - 1),
        threads s @ map toObject ?cs)]"
    by (subst s') simp
  have cells: "data s' (index s' (rowCount s + int j) 0) DisplayRole =
         Inr (QVariant_QString (record_title (toObject (?cs ! j))))"
    if "j < length ?cs" and "isObject (record_data (toObject (?cs ! j)))" for j
    using data_appended[OF th that(1)] that(2) by simp
  from ws have "list_all isObject ?cs" by (simp add: well_shaped_def)
  with th em cells show ?thesis by blast
qed

text \<open>The second completion of the scenario: D and E arrive on a list of three.\<close>

theorem C1_rows_inserted_range_witness:
  "error (reply_with (listing second_batch)) = NoError \<and>
   finished after_first (reply_with (listing second_batch)) = Inr after_second \<and>
   childrenArray (document (reply_with (listing second_batch))) \<noteq> [] \<and>
   rowCount after_first = 3 \<and>
   threads after_second = threads after_first @ map toObject second_batch \<and>
   emitted after_second = emitted after_first @
     [(rowsAboutToBeInserted 3 4, threads after_first),
      (rowsInserted 3 4, threads after_first @ map toObject second_batch)] \<and>
   data after_second (index after_second 3 0) DisplayRole = Inr (QVariant_QString ''D'') \<and>
   data after_second (index after_second 4 0) DisplayRole = Inr (QVariant_QString ''E'')"
proof -
  have cs: "childrenArray (document (reply_with (listing second_batch))) = second_batch"
    by (simp add: reply_with_simps listing_childrenArray)
  have h1: "error (reply_with (listing second_batch)) = NoError"
    by (simp add: reply_with_simps)
  have n: "rowCount after_first = 3"
    by (simp add: rowCount_def example_defs)
  have h3: "childrenArray (document (reply_with (listing second_batch))) \<noteq> []"
    unfolding cs by (simp add: second_batch_def)
  have d: "isObject (record_data (toObject (second_batch ! 0)))"
          "isObject (record_data (toObject (second_batch ! 1)))"
          "record_title (toObject (second_batch ! 0)) = ''D''"
          "record_title (toObject (second_batch ! 1)) = ''E''"
    by (simp_all add: example_defs record_data_def record_title_def QJsonObject_value_def)
  have len: "length second_batch = 2" by (simp add: second_batch_def)
  from C1_rows_inserted_range[OF h1 finished_second_batch h3] have
    "threads after_second = threads after_first @ map toObject second_batch"
    "emitted after_second = emitted after_first @
     [(rowsAboutToBeInserted 3 4, threads after_first),
      (rowsInserted 3 4, threads after_first @ map toObject second_batch)]"
    "\<forall>j<2. isObject (record_data (toObject (second_batch ! j))) \<longrightarrow>
       data after_second (index after_second (3 + int j) 0) DisplayRole =
         Inr (QVariant_QString (record_title (toObject (second_batch ! j))))"
    by (simp_all add: cs n len)
  moreover from this(3) d
  have "data after_second (index after_second 3 0) DisplayRole = Inr (QVariant_QString ''D'')"
       "data after_second (index after_second 4 0) DisplayRole = Inr (QVariant_QString ''E'')"
    by (auto dest: spec[of _ 0] spec[of _ 1])
  ultimately show ?thesis using h1 finished_second_batch h3 n by simp
qed

subsection \<open>C2: a transport error\<close>

text \<open>
  Claim C2: a completion that signals a transport error emits exactly one
  \<^verbatim>\<open>error(message)\<close> with the reply's error string, leaves the threads as they were and
  emits no rows-inserted notification: the state after it is the state before with that
  one entry added to the log, and the completion returns.
\<close>

theorem C2_error_completion:
  assumes "error reply \<noteq> NoError"
  shows "finished s reply = Inr (emit s (error_signal (errorString reply))) \<and>
         threads (emit s (error_signal (errorString reply))) = threads s \<and>
         emitted (emit s (error_signal (errorString reply))) =
           emitted s @ [(error_signal (errorString reply), threads s)]"
  using finished_error[OF assms, of s] by (simp add: emit_def)

text \<open>A host that is not found, after the first listing of the scenario.\<close>

theorem C2_error_completion_witness:
  "error reply_failed \<noteq> NoError \<and>
   finished after_first reply_failed = Inr (emit after_first (error_signal ''Host not found'')) \<and>
   threads (emit after_first (error_signal ''Host not found'')) = threads after_first \<and>
   emitted (emit after_first (error_signal ''Host not found'')) =
     emitted after_first @ [(error_signal ''Host not found'', threads after_first)]"
proof -
  have h: "error reply_failed \<noteq> NoError" by (simp add: reply_failed_def NoError_def)
  from C2_error_completion[OF h, of after_first] show ?thesis
    using h by (simp add: reply_failed_def)
qed

subsection \<open>C3: the row count is the sum of the batch sizes\<close>

text \<open>
  Claim C3: on a model whose list is empty, after any sequence of completions without
  transport error that all return, \<^verbatim>\<open>rowCount()\<close> is the sum of the lengths of their
  children arrays. Such a sequence returns whenever every document has the shape the
  handler asserts.
\<close>

theorem C3_rowCount_is_sum:
  assumes "threads s = []" and "list_all (\<lambda>r. error r = NoError) rs"
  shows "(list_all (\<lambda>r. well_shaped (document r)) rs \<longrightarrow> (\<exists>s'. completions s rs = Inr s')) \<and>
         (\<forall>s'. completions s rs = Inr s' \<longrightarrow>
            rowCount s' = (\<Sum>r\<leftarrow>rs. int (length (childrenArray (document r)))))"
proof -
  have "\<exists>s'. completions s rs = Inr s'" if "list_all (\<lambda>r. well_shaped (document r)) rs"
  proof -
    from assms(2) that have "list_all (\<lambda>r. error r = NoError \<and> well_shaped (document r)) rs"
      by (simp add: list_all_iff)
    then show ?thesis by (rule completions_total)
  qed
  moreover have "rowCount s' = (\<Sum>r\<leftarrow>rs. int (length (childrenArray (document r))))"
    if "completions s rs = Inr s'" for s'
    using completions_rowCount[OF assms(2) that] assms(1) by (simp add: rowCount_def)
  ultimately show ?thesis by blast
qed

text \<open>The scenario: three children, then two, give five rows.\<close>

theorem C3_rowCount_is_sum_witness:
  "threads RedditModel_default = [] \<and>
   list_all (\<lambda>r. error r = NoError)
     [reply_with (listing first_batch), reply_with (listing second_batch)] \<and>
   completions RedditModel_default
     [reply_with (listing first_batch), reply_with (listing second_batch)] = Inr after_second \<and>
   rowCount after_second = 3 + 2"
proof -
  let ?rs = "[reply_with (listing first_batch), reply_with (listing second_batch)]"
  have h1: "threads RedditModel_default = []" by (simp add: RedditModel_default_def)
  have h2: "list_all (\<lambda>r. error r = NoError) ?rs" by (simp add: reply_with_simps)
  have run: "completions RedditModel_default ?rs = Inr after_second"
    by (simp add: finished_first_batch finished_second_batch)
  have len: "length first_batch = 3" "length second_batch = 2"
    by (simp_all add: first_batch_def second_batch_def)
  from C3_rowCount_is_sum[OF h1 h2] run have "rowCount after_second = 3 + 2"
    by (simp add: reply_with_simps listing_childrenArray len)
  with h1 h2 run show ?thesis by simp
qed

subsection \<open>C4: the list is append-only\<close>

text \<open>
  Claim C4: every operation that returns leaves each record that was in the list at
  its index, and what it adds comes after the previous end: the list after the
  operation is the list before it followed by the added records.
\<close>

theorem C4_append_only:
  assumes "step s operation = Inr s'"
  shows "(\<exists>added. threads s' = threads s @ added) \<and>
         (\<forall>j < length (threads s). threads s' ! j = threads s ! j)"
proof -
  have "\<exists>added. threads s' = threads s @ added"
  proof (cases operation)
    case op_grant
    with assms show ?thesis by (auto simp add: grant_def)
  next
    case op_update
    with assms show ?thesis by (auto simp add: update_def)
  next
    case (op_statusChanged st)
    with assms show ?thesis by (auto simp add: statusChanged_threads)
  next
    case (op_finished reply)
    with assms have "finished s reply = Inr s'" by simp
    from finished_threads[OF this] show ?thesis by blast
  qed
  then show ?thesis by (auto simp add: nth_append)
qed

text \<open>The second completion of the scenario keeps the three records of the first.\<close>

theorem C4_append_only_witness:
  "step after_first (op_finished (reply_with (listing second_batch))) = Inr after_second \<and>
   threads after_second = threads after_first @ map toObject second_batch \<and>
   threads after_second ! 0 = threads after_first ! 0 \<and>
   threads after_second ! 1 = threads after_first ! 1 \<and>
   threads after_second ! 2 = threads after_first ! 2"
proof -
  have h: "step after_first (op_finished (reply_with (listing second_batch))) = Inr after_second"
    by (simp add: finished_second_batch)
  have len: "length (threads after_first) = 3" by (simp add: example_defs)
  from C4_append_only[OF h] have "\<forall>j<3. threads after_second ! j = threads after_first ! j"
    by (simp add: len)
  then have "threads after_second ! 0 = threads after_first ! 0"
    "threads after_second ! 1 = threads after_first ! 1"
    "threads after_second ! 2 = threads after_first ! 2"
    by simp_all
  moreover have "threads after_second = threads after_first @ map toObject second_batch"
    by (simp add: after_second_def after_first_def)
  ultimately show ?thesis using h by simp
qed

subsection \<open>C5: rows outside the list\<close>

text \<open>
  Claim C5: for every row that is negative or out of range, the cell query returns the
  absent value and does not fail, at any role, the display role included. The view
  asks for the cell of a row through the model's \<^verbatim>\<open>index()\<close>; for a row outside
  \<open>[0, rowCount)\<close> that index is invalid, and \<^verbatim>\<open>data()\<close> answers an invalid index with
  \<^verbatim>\<open>QVariant()\<close> before it looks at the role or at the list.
\<close>

theorem C5_absent_value:
  assumes "r < 0 \<or> rowCount s \<le> r"
  shows "data s (index s r c) role = Inr QVariant_invalid"
proof -
  from assms have "\<not> (0 \<le> r \<and> r < rowCount s)" by auto
  from index_out_of_range[OF this, of c] have "\<not> isValid (index s r c)"
    by (simp add: QModelIndex_invalid_def isValid_def)
  then show ?thesis by (rule data_invalid)
qed

text \<open>
  On the three records of the scenario: row 3, one past the end, and row -1, at the
  display role; row 7 at role 2 (\<^verbatim>\<open>Qt::EditRole\<close>).
\<close>

theorem C5_absent_value_witness:
  "rowCount after_first \<le> 3 \<and>
   data after_first (index after_first 3 0) DisplayRole = Inr QVariant_invalid \<and>
   data after_first (index after_first (- 1) 0) DisplayRole = Inr QVariant_invalid \<and>
   data after_first (index after_first 7 0) 2 = Inr QVariant_invalid"
proof -
  have n: "rowCount after_first = 3" by (simp add: example_defs rowCount_def)
  show ?thesis
    using C5_absent_value[of 3 after_first 0 DisplayRole]
      C5_absent_value[of "- 1" after_first 0 DisplayRole]
      C5_absent_value[of 7 after_first 0 2]
    by (simp add: n)
qed

subsection \<open>C6: an empty batch\<close>

text \<open>
  Claim C6: a completion without transport error whose document passes the assertions
  and whose children array is empty returns the state it was given: no record is added
  and no signal is emitted.
\<close>

theorem C6_empty_batch:
  assumes "error reply = NoError" and "well_shaped (document reply)"
    and "childrenArray (document reply) = []"
  shows "finished s reply = Inr s"
  using finished_well_shaped[OF assms(1,2), of s] assms(3) by simp

text \<open>An empty listing after the first listing of the scenario.\<close>

theorem C6_empty_batch_witness:
  "error (reply_with (listing [])) = NoError \<and>
   well_shaped (document (reply_with (listing []))) \<and>
   childrenArray (document (reply_with (listing []))) = [] \<and>
   finished after_first (reply_with (listing [])) = Inr after_first"
proof -
  have h1: "error (reply_with (listing [])) = NoError" by (simp add: reply_with_simps)
  have h2: "well_shaped (document (reply_with (listing [])))"
    by (simp add: reply_with_simps listing_well_shaped)
  have h3: "childrenArray (document (reply_with (listing []))) = []"
    by (simp add: reply_with_simps listing_childrenArray)
  from C6_empty_batch[OF h1 h2 h3, of after_first] h1 h2 h3 show ?thesis by simp
qed

subsection \<open>C7: the shape assertions\<close>

text \<open>
  Claim C7: on a completion without transport error the handler asserts, in this
  order, that the document is an object, that its kind is \<^verbatim>\<open>Listing\<close>, that its data is
  an object, that the children are an array and that every child is an object. The
  first condition that fails stops the program on its assertion, so every document that
  breaks one of them is fatal; a document that meets all five never reaches an
  assertion, and the completion returns.
\<close>

theorem C7_shape_assertions:
  assumes "error reply = NoError"
  shows
    "(\<not> QJsonDocument_isObject (document reply) \<longrightarrow>
        finished s reply = Inl (Q_ASSERT_failed document_isObject)) \<and>
     (QJsonDocument_isObject (document reply) \<and> kind (document reply) \<noteq> ''Listing'' \<longrightarrow>
        finished s reply = Inl (Q_ASSERT_failed kind_is_Listing)) \<and>
     (QJsonDocument_isObject (document reply) \<and> kind (document reply) = ''Listing'' \<and>
      \<not> isObject (dataValue (document reply)) \<longrightarrow>
        finished s reply = Inl (Q_ASSERT_failed dataValue_isObject)) \<and>
     (QJsonDocument_isObject (document reply) \<and> kind (document reply) = ''Listing'' \<and>
      isObject (dataValue (document reply)) \<and> \<not> isArray (childrenValue (document reply)) \<longrightarrow>
        finished s reply = Inl (Q_ASSERT_failed childrenValue_isArray)) \<and>
     (QJsonDocument_isObject (document reply) \<and> kind (document reply) = ''Listing'' \<and>
      isObject (dataValue (document reply)) \<and> isArray (childrenValue (document reply)) \<and>
      \<not> list_all isObject (childrenArray (document reply)) \<longrightarrow>
        finished s reply = Inl (Q_ASSERT_failed childValue_isObject)) \<and>
     (well_shaped (document reply) \<longrightarrow> (\<exists>s'. finished s reply = Inr s')) \<and>
     (\<not> well_shaped (document reply) \<longrightarrow> (\<exists>a. finished s reply = Inl (Q_ASSERT_failed a)))"
proof -
  have bad: "finished s reply = Inl (Q_ASSERT_failed
     (if \<not> QJsonDocument_isObject (document reply) then document_isObject
      else if kind (document reply) \<noteq> ''Listing'' then kind_is_Listing
      else if \<not> isObject (dataValue (document reply)) then dataValue_isObject
      else if \<not> isArray (childrenValue (document reply)) then childrenValue_isArray
      else childValue_isObject))" if "\<not> well_shaped (document reply)"
    using finished_not_well_shaped[OF assms that] .
  have good: "\<exists>s'. finished s reply = Inr s'" if "well_shaped (document reply)"
    using finished_well_shaped[OF assms that, of s] by (simp split: if_splits)
  show ?thesis
    using bad good by (auto simp add: well_shaped_def)
qed

text \<open>
  After the first listing of the scenario: bytes that do not parse, a wrong kind, no
  data, no children, a child that is \<^verbatim>\<open>null\<close>, and the second listing of the scenario.
\<close>

theorem C7_shape_assertions_witness:
  "finished after_first (reply_with DocumentNull) = Inl (Q_ASSERT_failed document_isObject) \<and>
   finished after_first (reply_with listing_wrong_kind) = Inl (Q_ASSERT_failed kind_is_Listing) \<and>
   finished after_first (reply_with listing_without_data) =
     Inl (Q_ASSERT_failed dataValue_isObject) \<and>
   finished after_first (reply_with listing_without_children) =
     Inl (Q_ASSERT_failed childrenValue_isArray) \<and>
   finished after_first (reply_with (listing [thread_titled ''D'', Null])) =
     Inl (Q_ASSERT_failed childValue_isObject) \<and>
   well_shaped (document (reply_with (listing second_batch))) \<and>
   finished after_first (reply_with (listing second_batch)) = Inr after_second"
proof -
  have err: "error (reply_with doc) = NoError" for doc by (simp add: reply_with_def)
  have doc: "document (reply_with doc) = doc" for doc by (simp add: reply_with_def)
  have a1: "\<not> QJsonDocument_isObject DocumentNull" by simp
  have a2: "QJsonDocument_isObject listing_wrong_kind \<and> kind listing_wrong_kind \<noteq> ''Listing''"
    by (simp add: listing_wrong_kind_def kind_def QJsonObject_value_def)
  have a3: "QJsonDocument_isObject listing_without_data \<and>
      kind listing_without_data = ''Listing'' \<and> \<not> isObject (dataValue listing_without_data)"
    by (simp add: listing_without_data_def kind_def dataValue_def QJsonObject_value_def)
  have a4: "QJsonDocument_isObject listing_without_children \<and>
      kind listing_without_children = ''Listing'' \<and>
      isObject (dataValue listing_without_children) \<and>
      \<not> isArray (childrenValue listing_without_children)"
    by (simp add: listing_without_children_def kind_def dataValue_def childrenValue_def
        QJsonObject_value_def)
  have a5: "QJsonDocument_isObject (listing [thread_titled ''D'', Null]) \<and>
      kind (listing [thread_titled ''D'', Null]) = ''Listing'' \<and>
      isObject (dataValue (listing [thread_titled ''D'', Null])) \<and>
      isArray (childrenValue (listing [thread_titled ''D'', Null])) \<and>
      \<not> list_all isObject (childrenArray (listing [thread_titled ''D'', Null]))"
    by (simp add: listing_def thread_titled_def kind_def dataValue_def childrenValue_def
        childrenArray_def QJsonObject_value_def)
  have a6: "well_shaped (listing second_batch)"
    by (simp add: listing_well_shaped second_batch_def thread_titled_def)
  show ?thesis
    using C7_shape_assertions[OF err, of DocumentNull after_first]
      C7_shape_assertions[OF err, of listing_wrong_kind after_first]
      C7_shape_assertions[OF err, of listing_without_data after_first]
      C7_shape_assertions[OF err, of listing_without_children after_first]
      C7_shape_assertions[OF err, of "listing [thread_titled ''D'', Null]" after_first]
      C7_shape_assertions[OF err, of "listing second_batch" after_first]
    unfolding doc using a1 a2 a3 a4 a5 a6 finished_second_batch by simp
qed

subsection \<open>C8: the column count\<close>

text \<open>
  Claim C8: in every state \<^verbatim>\<open>columnCount()\<close> is 0 when \<^verbatim>\<open>rowCount()\<close> is 0 and 1
  otherwise; it is 1 exactly when the list of records is not empty.
\<close>

theorem C8_columnCount:
  "columnCount s = (if rowCount s = 0 then 0 else 1) \<and>
   (columnCount s = 1 \<longleftrightarrow> threads s \<noteq> [])"
  by (simp add: columnCount_def rowCount_def)

subsection \<open>C9: update without an authenticated session\<close>

text \<open>
  Claim C9 says that \<^verbatim>\<open>update\<close> issues no fetch when no authenticated session is
  attached. \<^verbatim>\<open>update\<close> does not look at the session: on the model built without
  credentials, whose flow is not authenticated and has made no request, it calls
  \<^verbatim>\<open>oauth2.get\<close> for the hot listing.
\<close>

theorem C9_counterexample:
  "status (redditWrapper RedditModel_default) = NotAuthenticated \<and>
   get_calls (redditWrapper RedditModel_default) = [] \<and>
   get_calls (redditWrapper (update RedditModel_default)) = [hotUrl]"
  by (simp add: RedditModel_default_def RedditWrapper_default_def update_def requestHotThreads_def)

text \<open>
  Claim C9, amended: in every state, authenticated or not, \<^verbatim>\<open>update\<close> issues one GET
  for the hot listing and leaves the records and the emitted signals as they were; the
  model built without credentials has no connection to \<^verbatim>\<open>update\<close>, so that no sequence
  of status changes of its session makes it issue a request.
\<close>

theorem C9_update_always_requests:
  "get_calls (redditWrapper (update s)) = get_calls (redditWrapper s) @ [hotUrl] \<and>
   threads (update s) = threads s \<and>
   emitted (update s) = emitted s \<and>
   get_calls (redditWrapper (foldl statusChanged RedditModel_default sts)) = []"
proof -
  have "authenticated_connections RedditModel_default = 0"
       "get_calls (redditWrapper RedditModel_default) = []"
    by (simp_all add: RedditModel_default_def RedditWrapper_default_def)
  with foldl_statusChanged_unconnected[of RedditModel_default sts]
  have "get_calls (redditWrapper (foldl statusChanged RedditModel_default sts)) = []" by simp
  then show ?thesis by (simp add: update_def requestHotThreads_def)
qed

subsection \<open>C10: the data object of a stored record\<close>

text \<open>
  Claim C10: the display query at a valid index whose row is in range returns the
  title when the record's \<^verbatim>\<open>data\<close> is an object and stops on an assertion when it is
  not; and the insertion does not establish this: a reply that passes every assertion
  of the handler, with a child whose \<^verbatim>\<open>data\<close> is not an object, is stored by a
  completion that returns, and the display query on that child's row then stops on the
  assertion.
\<close>

theorem C10_data_object_unchecked:
  "(isValid idx \<and> 0 \<le> row idx \<and> row idx < rowCount s \<longrightarrow>
      data s idx DisplayRole =
        (if isObject (record_data (threads s ! nat (row idx)))
         then Inr (QVariant_QString (record_title (threads s ! nat (row idx))))
         else Inl (Q_ASSERT_failed childrenObject_data_isObject))) \<and>
   (error reply = NoError \<and> well_shaped (document reply) \<and>
    j < length (childrenArray (document reply)) \<and>
    \<not> isObject (record_data (toObject (childrenArray (document reply) ! j))) \<longrightarrow>
      (\<exists>s'. finished s reply = Inr s' \<and>
            data s' (index s' (rowCount s + int j) 0) DisplayRole =
              Inl (Q_ASSERT_failed childrenObject_data_isObject)))"
proof -
  have "\<exists>s'. finished s reply = Inr s' \<and>
            data s' (index s' (rowCount s + int j) 0) DisplayRole =
              Inl (Q_ASSERT_failed childrenObject_data_isObject)"
    if ok: "error reply = NoError" and ws: "well_shaped (document reply)"
      and j: "j < length (childrenArray (document reply))"
      and nd: "\<not> isObject (record_data (toObject (childrenArray (document reply) ! j)))"
  proof -
    from j have ne: "childrenArray (document reply) \<noteq> []" by auto
    from finished_well_shaped[OF ok ws, of s] ne obtain s'
      where fin: "finished s reply = Inr s'" by simp
    from finished_threads[OF fin] ok
    have "threads s' = threads s @ map toObject (childrenArray (document reply))" by simp
    from data_appended[OF this j] nd fin show ?thesis by simp
  qed
  then show ?thesis
    using data_display_in_range[of idx s] by blast
qed

text \<open>A listing of a titled entry and an entry whose \<^verbatim>\<open>data\<close> is a string, on a fresh model.\<close>

theorem C10_data_object_unchecked_witness:
  "error (reply_with (listing [thread_titled ''A'', thread_with_data_string])) = NoError \<and>
   well_shaped (document (reply_with (listing [thread_titled ''A'', thread_with_data_string]))) \<and>
   finished RedditModel_default (reply_with (listing [thread_titled ''A'', thread_with_data_string]))
     = Inr after_data_string \<and>
   isValid (index after_data_string 1 0) \<and>
   data after_data_string (index after_data_string 0 0) DisplayRole = Inr (QVariant_QString ''A'') \<and>
   data after_data_string (index after_data_string 1 0) DisplayRole =
     Inl (Q_ASSERT_failed childrenObject_data_isObject)"
proof -
  let ?r = "reply_with (listing [thread_titled ''A'', thread_with_data_string])"
  have h1: "error ?r = NoError" by (simp add: reply_with_def)
  have cs: "childrenArray (document ?r) = [thread_titled ''A'', thread_with_data_string]"
    by (simp add: reply_with_simps listing_childrenArray)
  have ws: "well_shaped (document ?r)"
    by (simp add: shape_defs example_defs QJsonObject_value_def)
  have fin: "finished RedditModel_default ?r = Inr after_data_string"
    by (simp add: finished_well_shaped[OF h1 ws] cs)
       (simp add: example_defs rowCount_def)
  have n: "rowCount RedditModel_default = 0" "rowCount after_data_string = 2"
    by (simp_all add: rowCount_def RedditModel_default_def after_data_string_def)
  have idx: "index after_data_string 0 0 = \<lparr>row = 0, column = 0, m = True\<rparr>"
            "index after_data_string 1 0 = \<lparr>row = 1, column = 0, m = True\<rparr>"
    by (simp_all add: index_in_range n)
  have rec: "\<not> isObject (record_data (toObject thread_with_data_string))"
    "isObject (record_data (toObject (thread_titled ''A'')))"
    "record_title (toObject (thread_titled ''A'')) = ''A''"
    by (simp_all add: record_data_def record_title_def example_defs QJsonObject_value_def)
  have th: "threads after_data_string = [toObject (thread_titled ''A''), toObject thread_with_data_string]"
    by (simp add: after_data_string_def)
  from C10_data_object_unchecked[where idx = "\<lparr>row = 0, column = 0, m = True\<rparr>"
        and s = after_data_string]
    C10_data_object_unchecked[where s = RedditModel_default and reply = ?r and j = 1]
  have "data after_data_string \<lparr>row = 0, column = 0, m = True\<rparr> DisplayRole = Inr (QVariant_QString ''A'')"
       "data after_data_string (index after_data_string 1 0) DisplayRole =
          Inl (Q_ASSERT_failed childrenObject_data_isObject)"
    by (simp_all add: h1 ws cs fin n rec th isValid_def)
  then show ?thesis using h1 ws fin by (simp add: idx isValid_def)
qed

end
